theory Spec2Isabelle
  imports Complex_Main
begin

section \<open>Namespace manager: the Kubernetes client layer (internal/kube)\<close>

text \<open>
  The program keeps no state of its own. Every operation of \<^verbatim>\<open>kube.Client\<close> talks to the
  Kubernetes API through \<^verbatim>\<open>c.clientset.CoreV1().Namespaces()\<close> and reads the wall clock.
  Both are made explicit here: the clientset is a record of response functions, and a
  \<open>world\<close> carries the wall clock and the log of calls issued so far.
\<close>

subsection \<open>Time\<close>

text \<open>
  A \<^verbatim>\<open>time.Time\<close> is an instant, counted in nanoseconds since 0001-01-01T00:00:00Z, so the
  zero value \<^verbatim>\<open>time.Time{}\<close> is \<open>0\<close>. A \<^verbatim>\<open>time.Duration\<close> is an \<^verbatim>\<open>int64\<close> count of
  nanoseconds; it is represented by its mathematical value, and the places where Go wraps
  or saturates are written out.
\<close>

type_synonym Time = int
type_synonym Duration = int

definition Millisecond :: Duration where "Millisecond = 1000000"
definition Second :: Duration where "Second = 1000000000"
definition Hour :: Duration where "Hour = 3600000000000"

subsection \<open>Errors\<close>

text \<open>
  A Go \<^verbatim>\<open>error\<close> is \<open>go_error option\<close>, with \<open>None\<close> for \<^verbatim>\<open>nil\<close>. The errors of the API
  are opaque to the program; they are given a kind (not found, conflict, transport, anything
  else) and the message that \<^verbatim>\<open>err.Error()\<close> returns. \<^verbatim>\<open>context.DeadlineExceeded\<close> is the
  value of \<^verbatim>\<open>ctx.Err()\<close> once the deadline of a context has passed.
\<close>

datatype failure_kind = NotFound | Conflict | Transport | Other

datatype go_error = ApiError failure_kind string | DeadlineExceeded

fun Error :: "go_error \<Rightarrow> string" where
  "Error (ApiError k msg) = msg"
| "Error DeadlineExceeded = ''context deadline exceeded''"

subsection \<open>The API objects and the clientset\<close>

text \<open>
  \<^verbatim>\<open>corev1.Namespace\<close>, reduced to the three fields of \<^verbatim>\<open>ObjectMeta\<close> the program touches.
  \<^verbatim>\<open>Annotations\<close> is a \<^verbatim>\<open>map[string]string\<close>.
\<close>

record Namespace =
  ObjectMeta_Name :: string
  ObjectMeta_Annotations :: "string \<rightharpoonup> string"
  ObjectMeta_CreationTimestamp :: Time

datatype call =
    CreateCall Namespace
  | DeleteCall string
  | GetCall string
  | ListCall
  | SleepCall Duration

record world =
  wall :: Time
  calls :: "call list"

text \<open>
  Each response function sees the world at the moment of the call (so the API may answer
  differently as time passes and calls accumulate) and returns the answer together with the
  time the round trip took, in nanoseconds. \<open>Namespaces_Get\<close> also receives the deadline of
  the context it is called with. The objects returned by \<^verbatim>\<open>Create\<close> and \<^verbatim>\<open>Get\<close> are
  discarded by the program (\<^verbatim>\<open>_, err := ...\<close>), so only the error is kept.
\<close>

record clientset =
  Namespaces_Create :: "world \<Rightarrow> Namespace \<Rightarrow> go_error option \<times> nat"
  Namespaces_Delete :: "world \<Rightarrow> string \<Rightarrow> go_error option \<times> nat"
  Namespaces_Get :: "world \<Rightarrow> Time \<Rightarrow> string \<Rightarrow> go_error option \<times> nat"
  Namespaces_List :: "world \<Rightarrow> (go_error + Namespace list) \<times> nat"

definition issue :: "world \<Rightarrow> call \<Rightarrow> nat \<Rightarrow> world" where
  "issue w c elapsed = w\<lparr>wall := wall w + int elapsed, calls := calls w @ [c]\<rparr>"

definition do_Create :: "clientset \<Rightarrow> world \<Rightarrow> Namespace \<Rightarrow> go_error option \<times> world" where
  "do_Create c w ns =
     (fst (Namespaces_Create c w ns), issue w (CreateCall ns) (snd (Namespaces_Create c w ns)))"

definition do_Delete :: "clientset \<Rightarrow> world \<Rightarrow> string \<Rightarrow> go_error option \<times> world" where
  "do_Delete c w name =
     (fst (Namespaces_Delete c w name), issue w (DeleteCall name) (snd (Namespaces_Delete c w name)))"

definition do_Get :: "clientset \<Rightarrow> world \<Rightarrow> Time \<Rightarrow> string \<Rightarrow> go_error option \<times> world" where
  "do_Get c w deadline name =
     (fst (Namespaces_Get c w deadline name),
      issue w (GetCall name) (snd (Namespaces_Get c w deadline name)))"

definition do_List :: "clientset \<Rightarrow> world \<Rightarrow> (go_error + Namespace list) \<times> world" where
  "do_List c w = (fst (Namespaces_List c w), issue w ListCall (snd (Namespaces_List c w)))"

definition Sleep :: "Duration \<Rightarrow> world \<Rightarrow> world" where
  "Sleep d w = w\<lparr>wall := wall w + d, calls := calls w @ [SleepCall d]\<rparr>"

subsection \<open>The arithmetic of \<^verbatim>\<open>time\<close> and of \<^verbatim>\<open>float64\<close>\<close>

text \<open>
  \<^verbatim>\<open>int64\<close> arithmetic wraps around; \<open>int64 x\<close> is the value an \<^verbatim>\<open>int64\<close> holds after
  computing \<open>x\<close>. Go's \<^verbatim>\<open>/\<close> and \<^verbatim>\<open>%\<close> on integers truncate towards zero.
\<close>

definition int64 :: "int \<Rightarrow> int" where
  "int64 x = (x + 2 ^ 63) mod 2 ^ 64 - 2 ^ 63"

definition quo :: "int \<Rightarrow> int \<Rightarrow> int" where
  "quo x y = sgn x * sgn y * (\<bar>x\<bar> div \<bar>y\<bar>)"

definition rem :: "int \<Rightarrow> int \<Rightarrow> int" where
  "rem x y = x - y * quo x y"

definition maxDuration :: Duration where "maxDuration = 2 ^ 63 - 1"
definition minDuration :: Duration where "minDuration = - (2 ^ 63)"

text \<open>
  \<^verbatim>\<open>t.Add(d)\<close> is exact on instants. \<^verbatim>\<open>t.Sub(u)\<close> saturates at the largest and smallest
  \<^verbatim>\<open>Duration\<close>. \<^verbatim>\<open>time.Until(t)\<close> is \<^verbatim>\<open>t.Sub(time.Now())\<close>; the first argument of
  \<open>Until\<close> is the reading of the clock.
\<close>

definition Add :: "Time \<Rightarrow> Duration \<Rightarrow> Time" where
  "Add t d = t + d"

definition Sub :: "Time \<Rightarrow> Time \<Rightarrow> Duration" where
  "Sub t u = (if maxDuration < t - u then maxDuration
              else if t - u < minDuration then minDuration
              else t - u)"

definition Until :: "Time \<Rightarrow> Time \<Rightarrow> Duration" where
  "Until now t = Sub t now"

text \<open>
  A finite \<^verbatim>\<open>float64\<close> is the rational number it denotes. \<open>RN\<close> rounds a rational to the
  nearest \<^verbatim>\<open>float64\<close>, ties to the even significand, as every IEEE 754 operation of Go does.
  \<open>binade n p x\<close> halves \<open>p\<close> until it is at most \<open>x\<close>, at most \<open>n\<close> times: started at
  \<open>2 ^ 1023\<close> with \<open>2045\<close> halvings it finds the power of two at the bottom of the binade of
  \<open>x\<close> and stops at \<open>2 ^ -1022\<close>, below which the spacing of \<^verbatim>\<open>float64\<close> no longer
  shrinks. \<open>ulp x\<close> is the spacing of \<^verbatim>\<open>float64\<close> around \<open>x\<close>. Values of \<open>2 ^ 1024\<close> and
  more (which round to infinity) do not occur in this program.
\<close>

type_synonym float64 = rat

fun binade :: "nat \<Rightarrow> rat \<Rightarrow> rat \<Rightarrow> rat" where
  "binade 0 p x = p"
| "binade (Suc n) p x = (if p \<le> x then p else binade n (p / 2) x)"

definition ulp :: "rat \<Rightarrow> rat" where
  "ulp x = binade 2045 (2 ^ 1023) \<bar>x\<bar> / 2 ^ 52"

definition round_half_even :: "rat \<Rightarrow> int" where
  "round_half_even y =
     (if y - of_int \<lfloor>y\<rfloor> < 1 / 2 then \<lfloor>y\<rfloor>
      else if 1 / 2 < y - of_int \<lfloor>y\<rfloor> then \<lfloor>y\<rfloor> + 1
      else if even \<lfloor>y\<rfloor> then \<lfloor>y\<rfloor> else \<lfloor>y\<rfloor> + 1)"

definition RN :: "rat \<Rightarrow> float64" where
  "RN x = of_int (round_half_even (x / ulp x)) * ulp x"

definition float64_of_int :: "int \<Rightarrow> float64" where
  "float64_of_int i = RN (of_int i)"

definition fadd :: "float64 \<Rightarrow> float64 \<Rightarrow> float64" where
  "fadd x y = RN (x + y)"

definition fdiv :: "float64 \<Rightarrow> float64 \<Rightarrow> float64" where
  "fdiv x y = RN (x / y)"

text \<open>The conversion \<^verbatim>\<open>int(x)\<close> of a \<^verbatim>\<open>float64\<close> discards the fraction.\<close>

definition int_of_float64 :: "float64 \<Rightarrow> int" where
  "int_of_float64 x = (if x < 0 then - \<lfloor>- x\<rfloor> else \<lfloor>x\<rfloor>)"

text \<open>
  \<^verbatim>\<open>func (d Duration) Hours() float64 {
    hour := d / Hour
    nsec := d % Hour
    return float64(hour) + float64(nsec)/(60*60*1e9) }\<close>
\<close>

definition Hours :: "Duration \<Rightarrow> float64" where
  "Hours d = fadd (float64_of_int (quo d Hour))
                  (fdiv (float64_of_int (rem d Hour)) (60 * 60 * 1000000000))"

text \<open>
  \<^verbatim>\<open>t.Format(time.RFC3339)\<close> and \<^verbatim>\<open>time.Parse(time.RFC3339, s)\<close> belong to Go's library and
  are parameters of the model. \<open>Parse_RFC3339\<close> is \<open>None\<close> where \<^verbatim>\<open>time.Parse\<close> returns an
  error; the \<^verbatim>\<open>Time\<close> it returns then is \<^verbatim>\<open>Time{}\<close>.
\<close>

record timelib =
  Format_RFC3339 :: "Time \<Rightarrow> string"
  Parse_RFC3339 :: "string \<Rightarrow> Time option"

subsection \<open>CreateNamespace\<close>

definition CreateNamespace ::
  "timelib \<Rightarrow> clientset \<Rightarrow> world \<Rightarrow> string \<Rightarrow> int \<Rightarrow> string \<Rightarrow> string \<Rightarrow> go_error option \<times> world" where
  "CreateNamespace lib c w name ttlHours owner team =
     (let namespace =
            \<lparr>ObjectMeta_Name = name,
             ObjectMeta_Annotations =
               [''owner'' \<mapsto> owner,
                ''team'' \<mapsto> team,
                ''expires_at'' \<mapsto> Format_RFC3339 lib (Add (wall w) (int64 (ttlHours * Hour)))],
             ObjectMeta_CreationTimestamp = 0\<rparr>
      in case fst (do_Create c w namespace) of
           Some err \<Rightarrow> (Some err, snd (do_Create c w namespace))
         | None \<Rightarrow> (None, snd (do_Create c w namespace)))"

subsection \<open>DeleteNamespace\<close>

text \<open>
  The \<^verbatim>\<open>for\<close> loop of \<^verbatim>\<open>DeleteNamespace\<close>. \<open>deadline\<close> is the deadline of \<^verbatim>\<open>ctx\<close>;
  \<^verbatim>\<open>ctx.Done()\<close> is ready exactly when the wall clock has reached it. The loop ends because
  every round that does not return sleeps for half a second.
\<close>

function poll :: "clientset \<Rightarrow> Time \<Rightarrow> string \<Rightarrow> world \<Rightarrow> go_error option \<times> world" where
  "poll c deadline name w =
     (case fst (do_Get c w deadline name) of
        Some err \<Rightarrow> (None, snd (do_Get c w deadline name))
      | None \<Rightarrow>
          if deadline \<le> wall (snd (do_Get c w deadline name))
          then (Some DeadlineExceeded, snd (do_Get c w deadline name))
          else poll c deadline name (Sleep (500 * Millisecond) (snd (do_Get c w deadline name))))"
  by pat_completeness auto
termination
  by (relation "measure (\<lambda>(c, deadline, name, w). nat (deadline - wall w))")
     (auto simp: do_Get_def issue_def Sleep_def Millisecond_def)

declare poll.simps [simp del]

definition DeleteNamespace :: "clientset \<Rightarrow> world \<Rightarrow> string \<Rightarrow> go_error option \<times> world" where
  "DeleteNamespace c w name =
     (case fst (do_Delete c w name) of
        Some err \<Rightarrow> (Some err, snd (do_Delete c w name))
      | None \<Rightarrow> poll c (wall (snd (do_Delete c w name)) + 30 * Second) name (snd (do_Delete c w name)))"

subsection \<open>ListNamespaces\<close>

record NamespaceInfo =
  Name :: string
  Owner :: string
  Team :: string
  CreatedAt :: Time
  ExpiresAt :: Time
  TTL :: int

text \<open>Reading a key that a Go map does not hold gives the empty string.\<close>

definition index :: "(string \<rightharpoonup> string) \<Rightarrow> string \<Rightarrow> string" where
  "index m k = (case m k of None \<Rightarrow> [] | Some v \<Rightarrow> v)"

text \<open>
  The block that computes \<^verbatim>\<open>expiresAt\<close> and \<^verbatim>\<open>ttl\<close> for one record; both start at their
  zero values. \<open>now\<close> is the reading of the clock by \<^verbatim>\<open>time.Until\<close>.
\<close>

definition expiry :: "timelib \<Rightarrow> Time \<Rightarrow> string \<Rightarrow> Time \<times> int" where
  "expiry lib now expiresAtStr =
     (if expiresAtStr \<noteq> [] then
        (case Parse_RFC3339 lib expiresAtStr of
           None \<Rightarrow> (0, 0)
         | Some expiresAt \<Rightarrow>
             if 0 < Until now expiresAt
             then (expiresAt, int_of_float64 (Hours (Until now expiresAt)))
             else (expiresAt, 0))
      else (0, 0))"

definition info :: "timelib \<Rightarrow> Time \<Rightarrow> Namespace \<Rightarrow> NamespaceInfo" where
  "info lib now ns =
     \<lparr>Name = ObjectMeta_Name ns,
      Owner = index (ObjectMeta_Annotations ns) ''owner'',
      Team = index (ObjectMeta_Annotations ns) ''team'',
      CreatedAt = ObjectMeta_CreationTimestamp ns,
      ExpiresAt = fst (expiry lib now (index (ObjectMeta_Annotations ns) ''expires_at'')),
      TTL = snd (expiry lib now (index (ObjectMeta_Annotations ns) ''expires_at''))\<rparr>"

text \<open>
  The loop \<^verbatim>\<open>for _, ns := range namespaces.Items\<close>, with \<open>result\<close> the slice built so far.
  One call of \<^verbatim>\<open>ListNamespaces\<close> is taken to read the same instant from the clock for every
  record.
\<close>

fun range_Items ::
  "timelib \<Rightarrow> Time \<Rightarrow> string \<Rightarrow> Namespace list \<Rightarrow> NamespaceInfo list \<Rightarrow> NamespaceInfo list" where
  "range_Items lib now owner [] result = result"
| "range_Items lib now owner (ns # items) result =
     (if owner \<noteq> [] \<and> index (ObjectMeta_Annotations ns) ''owner'' \<noteq> owner
      then range_Items lib now owner items result
      else range_Items lib now owner items (result @ [info lib now ns]))"

text \<open>The result is the pair \<^verbatim>\<open>([]NamespaceInfo, error)\<close>; a \<^verbatim>\<open>nil\<close> slice is \<open>[]\<close>.\<close>

definition ListNamespaces ::
  "timelib \<Rightarrow> clientset \<Rightarrow> world \<Rightarrow> string \<Rightarrow> (NamespaceInfo list \<times> go_error option) \<times> world" where
  "ListNamespaces lib c w owner =
     (case fst (do_List c w) of
        Inl err \<Rightarrow> (([], Some err), snd (do_List c w))
      | Inr items \<Rightarrow>
          ((range_Items lib (wall (snd (do_List c w))) owner items [], None), snd (do_List c w)))"

section \<open>The HTTP layer (internal/httpserver)\<close>

text \<open>
  \<^verbatim>\<open>HandleCreateNamespaceRequest\<close>. A request is its method and the outcome of decoding its
  body as JSON into a \<^verbatim>\<open>CreateNamespaceRequest\<close> (\<open>Inl\<close> the decoder's error message). The
  response is the status code written and the body.
\<close>

record CreateNamespaceRequest =
  req_Name :: string
  req_TTL :: int
  req_Owner :: string
  req_Team :: string

record request =
  Method :: string
  Decode :: "string + CreateNamespaceRequest"

datatype body = Text string | Json "(string \<times> string) list"

record response =
  StatusCode :: nat
  Body :: body

definition StatusCreated :: nat where "StatusCreated = 201"
definition StatusBadRequest :: nat where "StatusBadRequest = 400"
definition StatusMethodNotAllowed :: nat where "StatusMethodNotAllowed = 405"
definition StatusInternalServerError :: nat where "StatusInternalServerError = 500"

definition HandleCreateNamespaceRequest ::
  "timelib \<Rightarrow> clientset \<Rightarrow> world \<Rightarrow> request \<Rightarrow> response \<times> world" where
  "HandleCreateNamespaceRequest lib kubeClient w r =
     (if Method r \<noteq> ''POST'' then
        (\<lparr>StatusCode = StatusMethodNotAllowed, Body = Text ''Method not allowed. Use POST''\<rparr>, w)
      else case Decode r of
        Inl msg \<Rightarrow> (\<lparr>StatusCode = StatusBadRequest, Body = Text (''Invalid JSON: '' @ msg)\<rparr>, w)
      | Inr req \<Rightarrow>
          if req_Name req = [] then
            (\<lparr>StatusCode = StatusBadRequest, Body = Text ''Missing required field: name''\<rparr>, w)
          else if req_Owner req = [] then
            (\<lparr>StatusCode = StatusBadRequest, Body = Text ''Missing required field: owner''\<rparr>, w)
          else if req_Team req = [] then
            (\<lparr>StatusCode = StatusBadRequest, Body = Text ''Missing required field: team''\<rparr>, w)
          else if req_TTL req \<le> 0 then
            (\<lparr>StatusCode = StatusBadRequest, Body = Text ''TTL must be greater than 0''\<rparr>, w)
          else
            (case fst (CreateNamespace lib kubeClient w (req_Name req) (req_TTL req) (req_Owner req) (req_Team req)) of
               Some err \<Rightarrow>
                 (\<lparr>StatusCode = StatusInternalServerError, Body = Text (Error err)\<rparr>,
                  snd (CreateNamespace lib kubeClient w (req_Name req) (req_TTL req) (req_Owner req) (req_Team req)))
             | None \<Rightarrow>
                 (\<lparr>StatusCode = StatusCreated,
                   Body = Json [(''message'', ''Namespace created successfully''), (''name'', req_Name req)]\<rparr>,
                  snd (CreateNamespace lib kubeClient w (req_Name req) (req_TTL req) (req_Owner req) (req_Team req)))))"

section \<open>Example data\<close>

text \<open>
  The scenario of the specification: \<^verbatim>\<open>create("demo", 2, "alice", "infra")\<close>, on a machine whose
  zone is UTC. \<open>calendar\<close> lists the seconds (counted from 0001-01-01T00:00:00Z) and the
  timestamps that occur in the examples; \<open>utc\<close> is Go's library on them:
  \<^verbatim>\<open>Format(time.RFC3339)\<close> prints the second an instant falls in and drops the fraction,
  \<^verbatim>\<open>time.Parse\<close> returns the start of the second.
\<close>

definition calendar :: "(int \<times> string) list" where
  "calendar =
     [(63929138400, ''2026-11-01T14:00:00Z''),
      (63958622400, ''2027-10-08T20:00:00Z'')]"

definition utc :: timelib where
  "utc =
     \<lparr>Format_RFC3339 = (\<lambda>t. case map_of calendar (t div Second) of None \<Rightarrow> [] | Some s \<Rightarrow> s),
      Parse_RFC3339 = (\<lambda>s. map_option (\<lambda>sec. sec * Second) (map_of (map prod.swap calendar) s))\<rparr>"

text \<open>
  An API that accepts every create and delete at once, answers every \<^verbatim>\<open>Get\<close> with \<open>answer\<close>
  and lists \<open>items\<close>.
\<close>

definition api :: "Namespace list \<Rightarrow> go_error option \<Rightarrow> clientset" where
  "api items answer =
     \<lparr>Namespaces_Create = (\<lambda>w ns. (None, 0)),
      Namespaces_Delete = (\<lambda>w name. (None, 0)),
      Namespaces_Get = (\<lambda>w deadline name. (answer, 0)),
      Namespaces_List = (\<lambda>w. (Inr items, 0))\<rparr>"

text \<open>
  The same API behind a client that honours the context of a \<^verbatim>\<open>Get\<close>, as the REST client
  of \<^verbatim>\<open>kubernetes.Clientset\<close> does: the record is there and is returned at once while the
  deadline has not passed; from the deadline on the request is given up and \<^verbatim>\<open>Get\<close> returns
  the error of the context.
\<close>

definition rest :: "Namespace list \<Rightarrow> clientset" where
  "rest items =
     (api items None)
       \<lparr>Namespaces_Get :=
          (\<lambda>w deadline name. (if deadline \<le> wall w then Some DeadlineExceeded else None, 0))\<rparr>"

definition world_at :: "Time \<Rightarrow> world" where
  "world_at t = \<lparr>wall = t, calls = []\<rparr>"

text \<open>2026-11-01T12:00:00Z, and the record that \<^verbatim>\<open>create("demo", 2, "alice", "infra")\<close> hands to
  the API between 12:00:00 and 12:00:01 of that day.\<close>

definition noon :: Time where
  "noon = 63929131200 * Second"

definition demo :: Namespace where
  "demo =
     \<lparr>ObjectMeta_Name = ''demo'',
      ObjectMeta_Annotations =
        [''owner'' \<mapsto> ''alice'', ''team'' \<mapsto> ''infra'', ''expires_at'' \<mapsto> ''2026-11-01T14:00:00Z''],
      ObjectMeta_CreationTimestamp = 0\<rparr>"

section \<open>Properties of the arithmetic\<close>

subsection \<open>Rounding to \<^verbatim>\<open>float64\<close>\<close>






















section \<open>Deleting a namespace\<close>

text \<open>
  The branch \<^verbatim>\<open>case <-ctx.Done()\<close> is reached only by a \<^verbatim>\<open>Get\<close> that succeeds although the
  deadline has passed when it returns. Were every \<^verbatim>\<open>Get\<close> to succeed, also those issued
  after the deadline, the loop would end there, with \<^verbatim>\<open>context.DeadlineExceeded\<close>.
\<close>

lemma poll_found_throughout:
  assumes "\<And>w'. fst (Namespaces_Get c w' deadline name) = None"
  shows "fst (poll c deadline name w) = Some DeadlineExceeded
         \<and> deadline \<le> wall (snd (poll c deadline name w))"
  using assms
proof (induction c deadline name w rule: poll.induct)
  case (1 c deadline name w)
  have g: "fst (do_Get c w deadline name) = None"
    using "1.prems" by (simp add: do_Get_def)
  show ?case
  proof (cases "deadline \<le> wall (snd (do_Get c w deadline name))")
    case True
    then show ?thesis using g by (subst poll.simps, subst (2) poll.simps) simp
  next
    case False
    then show ?thesis
      using g "1.IH" [OF g False] "1.prems"
      by (subst poll.simps, subst (2) poll.simps) simp
  qed
qed

lemma poll_failure:
  assumes "fst (Namespaces_Get c w deadline name) = Some err"
  shows "fst (poll c deadline name w) = None"
    and "calls (snd (poll c deadline name w)) = calls w @ [GetCall name]"
  using assms by (subst poll.simps, simp add: do_Get_def issue_def)+

text \<open>
  Claim C6. When the API rejects the initial \<^verbatim>\<open>Delete\<close> call, \<^verbatim>\<open>DeleteNamespace\<close> returns that
  error at once: the only call it has issued is the \<^verbatim>\<open>Delete\<close> itself, so no \<^verbatim>\<open>Get\<close> poll
  (and no sleep) ever happens.
\<close>

theorem delete_submit_failed:
  assumes "fst (Namespaces_Delete c w name) = Some err"
  shows "fst (DeleteNamespace c w name) = Some err
         \<and> calls (snd (DeleteNamespace c w name)) = calls w @ [DeleteCall name]"
  using assms by (simp add: DeleteNamespace_def do_Delete_def issue_def)

theorem delete_submit_failed_witness:
  "fst (DeleteNamespace
          ((api [] None)\<lparr>Namespaces_Delete := \<lambda>w name. (Some (ApiError NotFound ''namespaces demo not found''), 0)\<rparr>)
          (world_at noon) ''demo'')
     = Some (ApiError NotFound ''namespaces demo not found'')
   \<and> calls (snd (DeleteNamespace
          ((api [] None)\<lparr>Namespaces_Delete := \<lambda>w name. (Some (ApiError NotFound ''namespaces demo not found''), 0)\<rparr>)
          (world_at noon) ''demo''))
     = [DeleteCall ''demo'']"
  using delete_submit_failed
    [of "(api [] None)\<lparr>Namespaces_Delete := \<lambda>w name. (Some (ApiError NotFound ''namespaces demo not found''), 0)\<rparr>"
        "world_at noon" "''demo''" "ApiError NotFound ''namespaces demo not found''"]
  by (simp add: world_at_def)

text \<open>
  Claim C2. In the polling loop of \<^verbatim>\<open>DeleteNamespace\<close>, a \<^verbatim>\<open>Get\<close> that fails ends the loop with
  \<^verbatim>\<open>nil\<close>, that is, with the deletion reported as done, whatever the error is (not-found or
  any other kind) and in whatever state the loop is; that \<^verbatim>\<open>Get\<close> is the last call issued.
\<close>

theorem poll_any_failure:
  assumes "fst (Namespaces_Get c w deadline name) = Some err"
  shows "fst (poll c deadline name w) = None
         \<and> calls (snd (poll c deadline name w)) = calls w @ [GetCall name]"
  using assms by (subst poll.simps, subst (2) poll.simps) (simp add: do_Get_def issue_def)

theorem poll_any_failure_witness:
  "fst (poll (api [demo] (Some (ApiError Transport ''connection refused''))) (noon + 30 * Second) ''demo''
          (world_at noon)) = None
   \<and> calls (snd (poll (api [demo] (Some (ApiError Transport ''connection refused''))) (noon + 30 * Second)
          ''demo'' (world_at noon)))
     = [GetCall ''demo'']"
  using poll_any_failure
    [of "api [demo] (Some (ApiError Transport ''connection refused''))" "world_at noon" "noon + 30 * Second"
        "''demo''" "ApiError Transport ''connection refused''"]
  by (simp add: api_def world_at_def)

text \<open>
  Let the \<^verbatim>\<open>Delete\<close> call succeed. If the first \<^verbatim>\<open>Get\<close> answers not-found,
  \<^verbatim>\<open>DeleteNamespace\<close> returns \<^verbatim>\<open>nil\<close> after that one poll: it has issued the \<^verbatim>\<open>Delete\<close>, one
  \<^verbatim>\<open>Get\<close> and nothing else.
\<close>

lemma delete_first_poll_not_found:
  assumes "fst (Namespaces_Delete c w name) = None"
    and "fst (Namespaces_Get c (snd (do_Delete c w name)) (wall (snd (do_Delete c w name)) + 30 * Second) name)
         = Some (ApiError NotFound msg)"
  shows "fst (DeleteNamespace c w name) = None"
    and "calls (snd (DeleteNamespace c w name)) = calls w @ [DeleteCall name, GetCall name]"
proof -
  have d: "DeleteNamespace c w name
           = poll c (wall (snd (do_Delete c w name)) + 30 * Second) name (snd (do_Delete c w name))"
    using assms(1) by (simp add: DeleteNamespace_def do_Delete_def)
  show "fst (DeleteNamespace c w name) = None"
    unfolding d by (rule poll_failure(1) [OF assms(2)])
  show "calls (snd (DeleteNamespace c w name)) = calls w @ [DeleteCall name, GetCall name]"
    unfolding d poll_failure(2) [OF assms(2)] by (simp add: do_Delete_def issue_def)
qed

text \<open>
  After an accepted \<^verbatim>\<open>Delete\<close>, \<^verbatim>\<open>DeleteNamespace\<close> returns \<^verbatim>\<open>nil\<close> or
  \<^verbatim>\<open>context.DeadlineExceeded\<close>: an error of a \<^verbatim>\<open>Get\<close> never reaches the caller.
\<close>

lemma poll_outcomes:
  "fst (poll c deadline name w) = None \<or> fst (poll c deadline name w) = Some DeadlineExceeded"
proof (induction c deadline name w rule: poll.induct)
  case (1 c deadline name w)
  show ?case
  proof (cases "fst (do_Get c w deadline name)")
    case (Some err)
    then show ?thesis by (subst poll.simps) simp
  next
    case None
    show ?thesis
    proof (cases "deadline \<le> wall (snd (do_Get c w deadline name))")
      case True
      with None show ?thesis by (subst (2) poll.simps) simp
    next
      case False
      with None "1.IH" [OF None False] show ?thesis
        by (subst poll.simps, subst (2) poll.simps) simp
    qed
  qed
qed

lemma delete_outcomes:
  assumes "fst (Namespaces_Delete c w name) = None"
  shows "fst (DeleteNamespace c w name) = None
         \<or> fst (DeleteNamespace c w name) = Some DeadlineExceeded"
  using assms poll_outcomes by (simp add: DeleteNamespace_def do_Delete_def)

text \<open>
  A consequence of the branch for a failed \<^verbatim>\<open>Get\<close>. The REST client behind
  \<^verbatim>\<open>kubernetes.Clientset\<close> gives up a request when the deadline of its context passes, so with
  it a \<^verbatim>\<open>Get\<close> that succeeds has returned before the deadline. Against such a client the
  \<^verbatim>\<open>case <-ctx.Done()\<close> branch is never taken: the first \<^verbatim>\<open>Get\<close> after the deadline fails, and
  the loop returns \<^verbatim>\<open>nil\<close>, whether or not the namespace is gone.
\<close>

lemma poll_deadline_honoured:
  assumes "\<And>w'. fst (Namespaces_Get c w' deadline name) = None \<Longrightarrow>
             wall w' + int (snd (Namespaces_Get c w' deadline name)) < deadline"
  shows "fst (poll c deadline name w) = None"
  using assms
proof (induction c deadline name w rule: poll.induct)
  case (1 c deadline name w)
  show ?case
  proof (cases "fst (Namespaces_Get c w deadline name)")
    case (Some err)
    then show ?thesis by (rule poll_failure)
  next
    case None
    then have g: "fst (do_Get c w deadline name) = None" by (simp add: do_Get_def)
    have f: "\<not> deadline \<le> wall (snd (do_Get c w deadline name))"
      using "1.prems" [OF None] by (simp add: do_Get_def issue_def)
    show ?thesis
      using g f "1.IH" [OF g f] "1.prems" by (subst poll.simps) simp
  qed
qed

lemma delete_deadline_honoured:
  assumes "fst (Namespaces_Delete c w name) = None"
    and "\<And>w' deadline. fst (Namespaces_Get c w' deadline name) = None \<Longrightarrow>
           wall w' + int (snd (Namespaces_Get c w' deadline name)) < deadline"
  shows "fst (DeleteNamespace c w name) = None"
  using assms(1) poll_deadline_honoured [of c _ name, OF assms(2)]
  by (simp add: DeleteNamespace_def do_Delete_def)

text \<open>
  The run of the loop against \<open>rest\<close>, started \<open>k\<close> half seconds before the deadline: \<open>k\<close>
  rounds find the record and sleep, the \<^verbatim>\<open>Get\<close> issued at the deadline fails, and the loop
  returns \<^verbatim>\<open>nil\<close>.
\<close>

lemma poll_rest:
  assumes "wall w + int k * (500 * Millisecond) = deadline"
  shows "fst (poll (rest items) deadline name w) = None
       \<and> wall (snd (poll (rest items) deadline name w)) = deadline
       \<and> calls (snd (poll (rest items) deadline name w))
         = calls w @ concat (replicate k [GetCall name, SleepCall (500 * Millisecond)]) @ [GetCall name]"
  using assms
proof (induction k arbitrary: w)
  case 0
  then show ?case
    by (subst poll.simps, subst (2) poll.simps, subst (3) poll.simps)
       (simp add: do_Get_def issue_def rest_def)
next
  case (Suc k)
  have lt: "wall w < deadline"
    using Suc.prems by (simp add: Millisecond_def)
  let ?w = "Sleep (500 * Millisecond) (snd (do_Get (rest items) w deadline name))"
  have g: "fst (do_Get (rest items) w deadline name) = None"
    "\<not> deadline \<le> wall (snd (do_Get (rest items) w deadline name))"
    using lt by (simp_all add: do_Get_def issue_def rest_def)
  have p: "poll (rest items) deadline name w = poll (rest items) deadline name ?w"
    using g by (subst poll.simps) simp
  have "wall ?w + int k * (500 * Millisecond) = deadline"
    using Suc.prems by (simp add: Sleep_def do_Get_def issue_def rest_def algebra_simps)
  from Suc.IH [OF this] show ?case
    unfolding p by (simp add: Sleep_def do_Get_def issue_def rest_def)
qed

text \<open>
  Claim C1 does not hold of the code in its timeout half. \<^verbatim>\<open>DeleteNamespace("demo")\<close> at
  12:00:00 against \<open>rest [demo]\<close>: the \<^verbatim>\<open>Delete\<close> is accepted, and each of the 60 polls issued
  within the 30 seconds returns the record. The 61st \<^verbatim>\<open>Get\<close> is issued at 12:00:30 with the
  expired \<^verbatim>\<open>ctx\<close> and fails; \<^verbatim>\<open>if err != nil { return nil }\<close> turns that into success. So the
  call returns \<^verbatim>\<open>nil\<close> after 30 seconds with the namespace still there, where the claim (and
  the comment "timeout reached, return error") has the timeout failure.
\<close>

theorem delete_timeout_reported_as_success:
  "fst (DeleteNamespace (rest [demo]) (world_at noon) ''demo'') = None
   \<and> wall (snd (DeleteNamespace (rest [demo]) (world_at noon) ''demo'')) = noon + 30 * Second
   \<and> calls (snd (DeleteNamespace (rest [demo]) (world_at noon) ''demo''))
     = DeleteCall ''demo''
       # concat (replicate 60 [GetCall ''demo'', SleepCall (500 * Millisecond)]) @ [GetCall ''demo'']"
proof -
  let ?w = "snd (do_Delete (rest [demo]) (world_at noon) ''demo'')"
  have w: "wall ?w = noon" "calls ?w = [DeleteCall ''demo'']"
    by (simp_all add: do_Delete_def issue_def rest_def api_def world_at_def)
  have n: "fst (do_Delete (rest [demo]) (world_at noon) ''demo'') = None"
    by (simp add: do_Delete_def rest_def api_def)
  have d: "DeleteNamespace (rest [demo]) (world_at noon) ''demo''
           = poll (rest [demo]) (noon + 30 * Second) ''demo'' ?w"
    unfolding DeleteNamespace_def n w(1) by simp
  have "wall ?w + int 60 * (500 * Millisecond) = noon + 30 * Second"
    by (simp add: w Millisecond_def Second_def)
  from poll_rest [OF this, of "[demo]" "''demo''"] show ?thesis
    unfolding d by (simp add: w)
qed


section \<open>Listing namespaces\<close>

lemma range_Items_eq:
  "range_Items lib now owner items result
   = result @ map (info lib now)
       (filter (\<lambda>ns. owner = [] \<or> index (ObjectMeta_Annotations ns) ''owner'' = owner) items)"
  by (induction items arbitrary: result) auto

lemma ListNamespaces_ok:
  assumes "fst (Namespaces_List c w) = Inr items"
  shows "fst (ListNamespaces lib c w owner)
         = (map (info lib (wall (snd (do_List c w))))
              (filter (\<lambda>ns. owner = [] \<or> index (ObjectMeta_Annotations ns) ''owner'' = owner) items),
            None)"
  using assms by (simp add: ListNamespaces_def do_List_def range_Items_eq)

lemma ListNamespaces_failed:
  assumes "fst (Namespaces_List c w) = Inl err"
  shows "fst (ListNamespaces lib c w owner) = ([], Some err)"
  using assms by (simp add: ListNamespaces_def do_List_def)

lemma Owner_info: "Owner (info lib now ns) = index (ObjectMeta_Annotations ns) ''owner''"
  by (simp add: info_def)

lemma info_listed:
  assumes "fst (Namespaces_List c w) = Inr items" and "ns \<in> set items"
    and "owner = [] \<or> index (ObjectMeta_Annotations ns) ''owner'' = owner"
  shows "info lib (wall (snd (do_List c w))) ns \<in> set (fst (fst (ListNamespaces lib c w owner)))"
  using assms by (simp add: ListNamespaces_ok)




lemma expiry_unparsed:
  "s = [] \<or> Parse_RFC3339 lib s = None \<Longrightarrow> expiry lib now s = (0, 0)"
  by (auto simp: expiry_def)

text \<open>
  Claim C8. When the \<^verbatim>\<open>List\<close> call of the API fails, \<^verbatim>\<open>ListNamespaces\<close> returns that error
  together with the \<^verbatim>\<open>nil\<close> slice, whatever the owner filter: no view is returned, neither
  beside the error nor in its place.
\<close>

theorem list_gateway_failure:
  assumes "fst (Namespaces_List c w) = Inl err"
  shows "fst (ListNamespaces lib c w owner) = ([], Some err)"
  using assms by (rule ListNamespaces_failed)

theorem list_gateway_failure_witness:
  "fst (ListNamespaces utc
          ((api [demo] None)\<lparr>Namespaces_List := \<lambda>w. (Inl (ApiError Transport ''connection refused''), 0)\<rparr>)
          (world_at noon) ''alice'')
   = ([], Some (ApiError Transport ''connection refused''))"
  using list_gateway_failure
    [of "(api [demo] None)\<lparr>Namespaces_List := \<lambda>w. (Inl (ApiError Transport ''connection refused''), 0)\<rparr>"
        "world_at noon" "ApiError Transport ''connection refused''" utc "''alice''"]
  by simp

text \<open>
  Claim C4. The empty string stands for "no filter"; an owner filter is a non-empty string \<open>f\<close>.
  For one state of the API and one reading of the clock, \<^verbatim>\<open>ListNamespaces(f)\<close> returns the views
  of \<^verbatim>\<open>ListNamespaces("")\<close> whose \<open>Owner\<close> is \<open>f\<close>, in the same order, and the same error; and
  \<^verbatim>\<open>ListNamespaces("")\<close> returns one view for each record the API lists, in the API's order.
\<close>

theorem list_filter:
  assumes "f \<noteq> []"
  shows "fst (ListNamespaces lib c w f)
         = (filter (\<lambda>v. Owner v = f) (fst (fst (ListNamespaces lib c w []))),
            snd (fst (ListNamespaces lib c w [])))
       \<and> (\<forall>items. fst (Namespaces_List c w) = Inr items \<longrightarrow>
            fst (ListNamespaces lib c w [])
            = (map (info lib (wall (snd (do_List c w)))) items, None))"
proof (cases "fst (Namespaces_List c w)")
  case (Inl err)
  then show ?thesis by (simp add: ListNamespaces_failed)
next
  case (Inr items)
  then show ?thesis using assms
    by (simp add: ListNamespaces_ok filter_map o_def Owner_info)
qed

theorem list_filter_witness:
  "fst (ListNamespaces utc (api [demo, demo\<lparr>ObjectMeta_Name := ''scratch'', ObjectMeta_Annotations := Map.empty\<rparr>] None)
          (world_at noon) ''alice'')
   = (filter (\<lambda>v. Owner v = ''alice'')
        (fst (fst (ListNamespaces utc
           (api [demo, demo\<lparr>ObjectMeta_Name := ''scratch'', ObjectMeta_Annotations := Map.empty\<rparr>] None)
           (world_at noon) []))),
      None)
   \<and> map Name (fst (fst (ListNamespaces utc
           (api [demo, demo\<lparr>ObjectMeta_Name := ''scratch'', ObjectMeta_Annotations := Map.empty\<rparr>] None)
           (world_at noon) [])))
     = [''demo'', ''scratch'']"
  using list_filter
    [of "''alice''" utc "api [demo, demo\<lparr>ObjectMeta_Name := ''scratch'', ObjectMeta_Annotations := Map.empty\<rparr>] None"
        "world_at noon"]
  by (simp add: api_def info_def demo_def)

text \<open>
  Claim C10. A record without an \<^verbatim>\<open>owner\<close> annotation is listed by \<^verbatim>\<open>ListNamespaces("")\<close> with
  the empty string as its \<open>Owner\<close>, and for a non-empty filter \<open>f\<close> the result of
  \<^verbatim>\<open>ListNamespaces(f)\<close> is what it would be had the API not listed that record.
\<close>

theorem list_missing_owner:
  assumes "fst (Namespaces_List c w) = Inr items" and "ns \<in> set items"
    and "ObjectMeta_Annotations ns ''owner'' = None"
  shows "info lib (wall (snd (do_List c w))) ns \<in> set (fst (fst (ListNamespaces lib c w [])))
       \<and> Owner (info lib (wall (snd (do_List c w))) ns) = []
       \<and> (f \<noteq> [] \<longrightarrow>
            fst (ListNamespaces lib c w f)
            = fst (ListNamespaces lib
                (c\<lparr>Namespaces_List := \<lambda>w'. (Inr (removeAll ns items), snd (Namespaces_List c w'))\<rparr>) w f))"
proof -
  have o: "index (ObjectMeta_Annotations ns) ''owner'' = []"
    using assms(3) by (simp add: index_def)
  have "filter (\<lambda>x. index (ObjectMeta_Annotations x) ''owner'' = f) (removeAll ns items)
        = filter (\<lambda>x. index (ObjectMeta_Annotations x) ''owner'' = f) items" if "f \<noteq> []"
    using that o by (induction items) auto
  then show ?thesis
    using assms(1,2) o
    by (simp add: ListNamespaces_ok [OF assms(1)] ListNamespaces_ok [of _ _ "removeAll ns items"]
        Owner_info do_List_def issue_def)
qed

theorem list_missing_owner_witness:
  "info utc noon (demo\<lparr>ObjectMeta_Name := ''scratch'', ObjectMeta_Annotations := Map.empty\<rparr>)
     \<in> set (fst (fst (ListNamespaces utc
          (api [demo\<lparr>ObjectMeta_Name := ''scratch'', ObjectMeta_Annotations := Map.empty\<rparr>, demo] None)
          (world_at noon) [])))
   \<and> Owner (info utc noon (demo\<lparr>ObjectMeta_Name := ''scratch'', ObjectMeta_Annotations := Map.empty\<rparr>)) = []
   \<and> fst (ListNamespaces utc
          (api [demo\<lparr>ObjectMeta_Name := ''scratch'', ObjectMeta_Annotations := Map.empty\<rparr>, demo] None)
          (world_at noon) ''alice'')
     = fst (ListNamespaces utc (api [demo] None) (world_at noon) ''alice'')"
  using list_missing_owner
    [of "api [demo\<lparr>ObjectMeta_Name := ''scratch'', ObjectMeta_Annotations := Map.empty\<rparr>, demo] None"
        "world_at noon"
        "[demo\<lparr>ObjectMeta_Name := ''scratch'', ObjectMeta_Annotations := Map.empty\<rparr>, demo]"
        "demo\<lparr>ObjectMeta_Name := ''scratch'', ObjectMeta_Annotations := Map.empty\<rparr>"
        utc "''alice''"]
  by (simp add: api_def world_at_def do_List_def issue_def demo_def)

text \<open>
  Claim C7. Let the API list a record that has no \<^verbatim>\<open>expires_at\<close> annotation, or one that
  \<^verbatim>\<open>time.Parse\<close> rejects. If the record passes the owner filter, \<^verbatim>\<open>ListNamespaces\<close> returns no
  error and the result holds the view of the record with \<open>TTL = 0\<close> and the zero \<open>ExpiresAt\<close>.
\<close>

theorem list_unparseable_expiry:
  assumes "fst (Namespaces_List c w) = Inr items" and "ns \<in> set items"
    and "owner = [] \<or> index (ObjectMeta_Annotations ns) ''owner'' = owner"
    and "ObjectMeta_Annotations ns ''expires_at'' = None
         \<or> (\<exists>s. ObjectMeta_Annotations ns ''expires_at'' = Some s \<and> Parse_RFC3339 lib s = None)"
  shows "snd (fst (ListNamespaces lib c w owner)) = None
       \<and> \<lparr>Name = ObjectMeta_Name ns,
           Owner = index (ObjectMeta_Annotations ns) ''owner'',
           Team = index (ObjectMeta_Annotations ns) ''team'',
           CreatedAt = ObjectMeta_CreationTimestamp ns,
           ExpiresAt = 0,
           TTL = 0\<rparr> \<in> set (fst (fst (ListNamespaces lib c w owner)))"
proof -
  have "index (ObjectMeta_Annotations ns) ''expires_at'' = []
        \<or> Parse_RFC3339 lib (index (ObjectMeta_Annotations ns) ''expires_at'') = None"
    using assms(4) by (auto simp: index_def)
  then have "expiry lib (wall (snd (do_List c w))) (index (ObjectMeta_Annotations ns) ''expires_at'') = (0, 0)"
    by (rule expiry_unparsed)
  then have "info lib (wall (snd (do_List c w))) ns
             = \<lparr>Name = ObjectMeta_Name ns,
                Owner = index (ObjectMeta_Annotations ns) ''owner'',
                Team = index (ObjectMeta_Annotations ns) ''team'',
                CreatedAt = ObjectMeta_CreationTimestamp ns,
                ExpiresAt = 0,
                TTL = 0\<rparr>"
    by (simp add: info_def)
  with info_listed [OF assms(1,2,3), of lib] show ?thesis
    by (simp add: ListNamespaces_ok [OF assms(1)])
qed

theorem list_unparseable_expiry_witness:
  "snd (fst (ListNamespaces utc
        (api [demo\<lparr>ObjectMeta_Name := ''bare'', ObjectMeta_Annotations := [''owner'' \<mapsto> ''alice'']\<rparr>,
              demo\<lparr>ObjectMeta_Name := ''odd'',
                   ObjectMeta_Annotations := [''owner'' \<mapsto> ''alice'', ''expires_at'' \<mapsto> ''tomorrow'']\<rparr>] None)
        (world_at noon) ''alice'')) = None
   \<and> \<lparr>Name = ''bare'', Owner = ''alice'', Team = [], CreatedAt = 0, ExpiresAt = 0, TTL = 0\<rparr>
     \<in> set (fst (fst (ListNamespaces utc
        (api [demo\<lparr>ObjectMeta_Name := ''bare'', ObjectMeta_Annotations := [''owner'' \<mapsto> ''alice'']\<rparr>,
              demo\<lparr>ObjectMeta_Name := ''odd'',
                   ObjectMeta_Annotations := [''owner'' \<mapsto> ''alice'', ''expires_at'' \<mapsto> ''tomorrow'']\<rparr>] None)
        (world_at noon) ''alice'')))
   \<and> \<lparr>Name = ''odd'', Owner = ''alice'', Team = [], CreatedAt = 0, ExpiresAt = 0, TTL = 0\<rparr>
     \<in> set (fst (fst (ListNamespaces utc
        (api [demo\<lparr>ObjectMeta_Name := ''bare'', ObjectMeta_Annotations := [''owner'' \<mapsto> ''alice'']\<rparr>,
              demo\<lparr>ObjectMeta_Name := ''odd'',
                   ObjectMeta_Annotations := [''owner'' \<mapsto> ''alice'', ''expires_at'' \<mapsto> ''tomorrow'']\<rparr>] None)
        (world_at noon) ''alice'')))"
  using list_unparseable_expiry
    [of "api [demo\<lparr>ObjectMeta_Name := ''bare'', ObjectMeta_Annotations := [''owner'' \<mapsto> ''alice'']\<rparr>,
              demo\<lparr>ObjectMeta_Name := ''odd'',
                   ObjectMeta_Annotations := [''owner'' \<mapsto> ''alice'', ''expires_at'' \<mapsto> ''tomorrow'']\<rparr>] None"
        "world_at noon"
        "[demo\<lparr>ObjectMeta_Name := ''bare'', ObjectMeta_Annotations := [''owner'' \<mapsto> ''alice'']\<rparr>,
          demo\<lparr>ObjectMeta_Name := ''odd'',
               ObjectMeta_Annotations := [''owner'' \<mapsto> ''alice'', ''expires_at'' \<mapsto> ''tomorrow'']\<rparr>]"
        "demo\<lparr>ObjectMeta_Name := ''bare'', ObjectMeta_Annotations := [''owner'' \<mapsto> ''alice'']\<rparr>"
        "''alice''" utc]
    list_unparseable_expiry
    [of "api [demo\<lparr>ObjectMeta_Name := ''bare'', ObjectMeta_Annotations := [''owner'' \<mapsto> ''alice'']\<rparr>,
              demo\<lparr>ObjectMeta_Name := ''odd'',
                   ObjectMeta_Annotations := [''owner'' \<mapsto> ''alice'', ''expires_at'' \<mapsto> ''tomorrow'']\<rparr>] None"
        "world_at noon"
        "[demo\<lparr>ObjectMeta_Name := ''bare'', ObjectMeta_Annotations := [''owner'' \<mapsto> ''alice'']\<rparr>,
          demo\<lparr>ObjectMeta_Name := ''odd'',
               ObjectMeta_Annotations := [''owner'' \<mapsto> ''alice'', ''expires_at'' \<mapsto> ''tomorrow'']\<rparr>]"
        "demo\<lparr>ObjectMeta_Name := ''odd'',
             ObjectMeta_Annotations := [''owner'' \<mapsto> ''alice'', ''expires_at'' \<mapsto> ''tomorrow'']\<rparr>"
        "''alice''" utc]
  by (simp add: api_def demo_def index_def utc_def calendar_def)




section \<open>Creating a namespace\<close>

lemma int64_exact: "- (2 ^ 63) \<le> x \<Longrightarrow> x < 2 ^ 63 \<Longrightarrow> int64 x = x"
  by (simp add: int64_def)

lemma create_single_call:
  "fst (CreateNamespace lib c w name ttlHours owner team)
   = fst (Namespaces_Create c w
       \<lparr>ObjectMeta_Name = name,
        ObjectMeta_Annotations =
          [''owner'' \<mapsto> owner, ''team'' \<mapsto> team,
           ''expires_at'' \<mapsto> Format_RFC3339 lib (wall w + int64 (ttlHours * Hour))],
        ObjectMeta_CreationTimestamp = 0\<rparr>)"
  "calls (snd (CreateNamespace lib c w name ttlHours owner team))
   = calls w @ [CreateCall
       \<lparr>ObjectMeta_Name = name,
        ObjectMeta_Annotations =
          [''owner'' \<mapsto> owner, ''team'' \<mapsto> team,
           ''expires_at'' \<mapsto> Format_RFC3339 lib (wall w + int64 (ttlHours * Hour))],
        ObjectMeta_CreationTimestamp = 0\<rparr>]"
  by (simp_all add: CreateNamespace_def do_Create_def issue_def Add_def Let_def split: option.split)

text \<open>
  As long as \<^verbatim>\<open>time.Duration(ttlHours) * time.Hour\<close> fits an \<^verbatim>\<open>int64\<close>, that is for a TTL of
  at most 2562047 hours either way, \<^verbatim>\<open>CreateNamespace\<close> issues the one \<^verbatim>\<open>Create\<close> call with the
  name and the three annotations, \<^verbatim>\<open>expires_at\<close> being the time of the call plus \<open>ttlHours\<close>
  hours, and returns what the API returned.
\<close>

lemma create_in_range:
  assumes "- 2562047 \<le> ttlHours" and "ttlHours \<le> 2562047"
  shows "fst (CreateNamespace lib c w name ttlHours owner team)
         = fst (Namespaces_Create c w
             \<lparr>ObjectMeta_Name = name,
              ObjectMeta_Annotations =
                [''owner'' \<mapsto> owner, ''team'' \<mapsto> team,
                 ''expires_at'' \<mapsto> Format_RFC3339 lib (wall w + ttlHours * Hour)],
              ObjectMeta_CreationTimestamp = 0\<rparr>)
       \<and> calls (snd (CreateNamespace lib c w name ttlHours owner team))
         = calls w @ [CreateCall
             \<lparr>ObjectMeta_Name = name,
              ObjectMeta_Annotations =
                [''owner'' \<mapsto> owner, ''team'' \<mapsto> team,
                 ''expires_at'' \<mapsto> Format_RFC3339 lib (wall w + ttlHours * Hour)],
              ObjectMeta_CreationTimestamp = 0\<rparr>]"
proof -
  have "int64 (ttlHours * Hour) = ttlHours * Hour"
    using assms by (intro int64_exact) (simp_all add: Hour_def)
  then show ?thesis by (simp add: create_single_call)
qed

text \<open>
  Claim C5 does not hold for every input. A TTL of 2562048 hours passes the check of the
  HTTP layer, but \<^verbatim>\<open>time.Duration(2562048) * time.Hour\<close> exceeds the largest \<^verbatim>\<open>int64\<close> and wraps
  to -9223371273709551616 nanoseconds: the \<^verbatim>\<open>expires_at\<close> handed to the API lies about 292
  years before the call, not 2562048 hours after it.
\<close>

theorem create_ttl_overflow:
  "int64 (2562048 * Hour) = - 9223371273709551616
   \<and> calls (snd (CreateNamespace lib c w name 2562048 owner team))
     = calls w @ [CreateCall
       \<lparr>ObjectMeta_Name = name,
        ObjectMeta_Annotations =
          [''owner'' \<mapsto> owner, ''team'' \<mapsto> team,
           ''expires_at'' \<mapsto> Format_RFC3339 lib (wall w - 9223371273709551616)],
        ObjectMeta_CreationTimestamp = 0\<rparr>]"
proof -
  have "int64 (2562048 * Hour) = - 9223371273709551616"
    by (simp add: int64_def Hour_def)
  then show ?thesis by (simp add: create_single_call)
qed

section \<open>The create handler\<close>

text \<open>
  Claim C9. A \<^verbatim>\<open>POST\<close> whose body decodes to a request with an empty name, owner or team, or
  with a TTL that is not positive, is answered with status 400 and the world is left as it
  was: \<^verbatim>\<open>CreateNamespace\<close> is not called (it would have issued a call). \<^verbatim>\<open>CreateNamespace\<close>
  itself checks nothing: for every name, TTL, owner and team it issues its one \<^verbatim>\<open>Create\<close> call
  and returns the API's answer.
\<close>

theorem create_validation:
  assumes "Method r = ''POST''" and "Decode r = Inr req"
    and "req_Name req = [] \<or> req_Owner req = [] \<or> req_Team req = [] \<or> req_TTL req \<le> 0"
  shows "StatusCode (fst (HandleCreateNamespaceRequest lib c w r)) = StatusBadRequest
       \<and> snd (HandleCreateNamespaceRequest lib c w r) = w
       \<and> calls (snd (CreateNamespace lib c w name ttlHours owner team))
         = calls w @ [CreateCall
             \<lparr>ObjectMeta_Name = name,
              ObjectMeta_Annotations =
                [''owner'' \<mapsto> owner, ''team'' \<mapsto> team,
                 ''expires_at'' \<mapsto> Format_RFC3339 lib (wall w + int64 (ttlHours * Hour))],
              ObjectMeta_CreationTimestamp = 0\<rparr>]
       \<and> fst (CreateNamespace lib c w name ttlHours owner team)
         = fst (Namespaces_Create c w
             \<lparr>ObjectMeta_Name = name,
              ObjectMeta_Annotations =
                [''owner'' \<mapsto> owner, ''team'' \<mapsto> team,
                 ''expires_at'' \<mapsto> Format_RFC3339 lib (wall w + int64 (ttlHours * Hour))],
              ObjectMeta_CreationTimestamp = 0\<rparr>)"
  using assms by (auto simp: HandleCreateNamespaceRequest_def create_single_call)

theorem create_validation_witness:
  "StatusCode (fst (HandleCreateNamespaceRequest utc (api [] None) (world_at noon)
      \<lparr>Method = ''POST'',
       Decode = Inr \<lparr>req_Name = ''demo'', req_TTL = 0, req_Owner = ''alice'', req_Team = ''infra''\<rparr>\<rparr>))
   = 400
   \<and> snd (HandleCreateNamespaceRequest utc (api [] None) (world_at noon)
      \<lparr>Method = ''POST'',
       Decode = Inr \<lparr>req_Name = ''demo'', req_TTL = 0, req_Owner = ''alice'', req_Team = ''infra''\<rparr>\<rparr>)
     = world_at noon
   \<and> calls (snd (CreateNamespace utc (api [] None) (world_at noon) [] 0 [] []))
     = [CreateCall
         \<lparr>ObjectMeta_Name = [],
          ObjectMeta_Annotations =
            [''owner'' \<mapsto> [], ''team'' \<mapsto> [], ''expires_at'' \<mapsto> Format_RFC3339 utc noon],
          ObjectMeta_CreationTimestamp = 0\<rparr>]
   \<and> fst (CreateNamespace utc (api [] None) (world_at noon) [] 0 [] []) = None"
  using create_validation
    [of "\<lparr>Method = ''POST'',
          Decode = Inr \<lparr>req_Name = ''demo'', req_TTL = 0, req_Owner = ''alice'', req_Team = ''infra''\<rparr>\<rparr>"
        "\<lparr>req_Name = ''demo'', req_TTL = 0, req_Owner = ''alice'', req_Team = ''infra''\<rparr>"
        utc "api [] None" "world_at noon" "[]" 0 "[]" "[]"]
  by (simp add: StatusBadRequest_def world_at_def api_def int64_def)

end
